theory Spec2Isabelle
  imports Main "HOL-Library.Sublist"
begin

section \<open>Data model\<close>

text \<open>
  The JSON values the handlers build with \<^verbatim>\<open>jsonify\<close>. An object is kept as an
  association list in the order the source writes its keys. Floating-point numbers do
  not occur in any envelope of the application and are left out.
\<close>

datatype json =
    JNull
  | JBool bool
  | JInt int
  | JStr string
  | JList "json list"
  | JObj "(string \<times> json) list"

text \<open>
  Modelled from the spec: the classes \<^verbatim>\<open>Question\<close> and \<^verbatim>\<open>Category\<close> of the two
  tables are imported from \<^verbatim>\<open>models\<close>, which is not part of the sources; their columns
  are those of the data model of the specification. The
  Python attribute \<^verbatim>\<open>id\<close> is the field \<open>qid\<close> (\<open>cid\<close> for a category), and
  \<^verbatim>\<open>type\<close> is \<open>ctype\<close>. A local variable of the source whose name is a field here
  (\<^verbatim>\<open>question\<close>, \<^verbatim>\<open>questions\<close>) carries a prime.
\<close>

record question =
  qid :: int
  question :: string
  answer :: string
  category :: int
  difficulty :: int

record category_row =
  cid :: int
  ctype :: string

text \<open>
  The database: the rows of each table in the order an unordered \<^verbatim>\<open>query.all()\<close>
  delivers them.
\<close>

record database =
  questions :: "question list"
  categories :: "category_row list"

text \<open>
  Modelled from the spec: \<^verbatim>\<open>Question.format\<close> and \<^verbatim>\<open>Category.format\<close> live in
  \<^verbatim>\<open>models\<close>, which is not part of the sources; the specification describes them as the
  projection of a row to a plain mapping of its columns.
\<close>

definition format_question :: "question \<Rightarrow> json" where
  "format_question q = JObj
     [(''id'', JInt (qid q)),
      (''question'', JStr (question q)),
      (''answer'', JStr (answer q)),
      (''category'', JInt (category q)),
      (''difficulty'', JInt (difficulty q))]"

definition format_category :: "category_row \<Rightarrow> json" where
  "format_category c = JObj [(''id'', JInt (cid c)), (''type'', JStr (ctype c))]"

text \<open>\<^verbatim>\<open>Question.query.order_by(Question.id)\<close>: the rows by ascending id.\<close>

definition order_by_id :: "question list \<Rightarrow> question list" where
  "order_by_id rows = sort_key qid rows"

section \<open>Requests and outcomes\<close>

text \<open>
  What a handler reads from the request. \<open>args_page\<close> is the query parameter
  \<^verbatim>\<open>page\<close> after \<^verbatim>\<open>int()\<close>: \<open>None\<close> when the parameter is absent or \<^verbatim>\<open>int()\<close>
  raises \<^verbatim>\<open>ValueError\<close>, the two cases in which \<^verbatim>\<open>args.get('page', 1, type=int)\<close>
  falls back to its default.
\<close>

record request =
  args_page :: "int option"

datatype py_error =
    TypeError | KeyError | IndexError | MultipleResultsFound | DataError | OperationalError

text \<open>
  How a view function ends: it returns \<^verbatim>\<open>jsonify(...)\<close>, it falls off its end and
  returns \<^verbatim>\<open>None\<close>, it calls \<^verbatim>\<open>abort(code)\<close>, or an exception leaves it.
\<close>

datatype outcome =
    Return json
  | ReturnNone
  | Abort nat
  | Raise py_error

text \<open>
  \<^verbatim>\<open>try: ... except BaseException: abort(code)\<close>. \<^verbatim>\<open>abort\<close> raises an
  \<^verbatim>\<open>HTTPException\<close>, which is a \<^verbatim>\<open>BaseException\<close>: an \<^verbatim>\<open>abort\<close> inside the
  \<^verbatim>\<open>try\<close> block is caught like any other exception.
\<close>

fun try_except_abort :: "nat \<Rightarrow> outcome \<Rightarrow> outcome" where
  "try_except_abort code (Return j) = Return j"
| "try_except_abort code ReturnNone = ReturnNone"
| "try_except_abort code (Abort c) = Abort code"
| "try_except_abort code (Raise e) = Abort code"

text \<open>The error handlers registered by \<^verbatim>\<open>create_app\<close>.\<close>

definition error_envelope :: "nat \<Rightarrow> string \<Rightarrow> nat \<times> json" where
  "error_envelope code message =
     (code, JObj [(''success'', JBool False), (''error'', JInt (int code)),
                  (''message'', JStr message)])"

definition bad_request :: "nat \<times> json" where
  "bad_request = error_envelope 400 ''Bad Request''"

definition not_found :: "nat \<times> json" where
  "not_found = error_envelope 404 ''Not Found''"

definition method_not_allowed :: "nat \<times> json" where
  "method_not_allowed = error_envelope 405 ''Method not allowed''"

definition unprocessable :: "nat \<times> json" where
  "unprocessable = error_envelope 422 ''Unprocessable''"

definition server_error :: "nat \<times> json" where
  "server_error = error_envelope 500 ''Internal server error''"

text \<open>
  The status code and body Flask sends for an outcome. A returned envelope goes out with
  status 200. An \<^verbatim>\<open>abort(code)\<close> goes to the handler registered for the code (a code
  without one gets Werkzeug's default page, whose body is not modelled). A view that
  returns \<^verbatim>\<open>None\<close> makes Flask raise \<^verbatim>\<open>TypeError\<close>, and that, like any exception
  that leaves a view, goes to the handler for 500.
\<close>

fun respond :: "outcome \<Rightarrow> nat \<times> json" where
  "respond (Return j) = (200, j)"
| "respond ReturnNone = server_error"
| "respond (Raise e) = server_error"
| "respond (Abort code) =
     (if code = 400 then bad_request
      else if code = 404 then not_found
      else if code = 405 then method_not_allowed
      else if code = 422 then unprocessable
      else if code = 500 then server_error
      else (code, JNull))"

definition status_code :: "outcome \<Rightarrow> nat" where
  "status_code out = fst (respond out)"

section \<open>Pagination\<close>

definition QUESTIONS_PER_PAGE :: int where
  "QUESTIONS_PER_PAGE = 10"

text \<open>
  Python's \<^verbatim>\<open>xs[start:end]\<close>: a negative bound counts from the end of the list, and
  both bounds are clamped to the list, so a slice never raises.
\<close>

definition slice_bound :: "nat \<Rightarrow> int \<Rightarrow> nat" where
  "slice_bound n i = (if i < 0 then nat (max (i + int n) 0) else min (nat i) n)"

definition py_slice :: "'a list \<Rightarrow> int \<Rightarrow> int \<Rightarrow> 'a list" where
  "py_slice xs start end =
     (let lo = slice_bound (length xs) start;
          hi = slice_bound (length xs) end
      in take (hi - lo) (drop lo xs))"

definition paginate_questions :: "request \<Rightarrow> question list \<Rightarrow> json list" where
  "paginate_questions req selection =
     (let page = (case args_page req of None \<Rightarrow> 1 | Some p \<Rightarrow> p);
          start = (page - 1) * QUESTIONS_PER_PAGE;
          end = start + QUESTIONS_PER_PAGE;
          questions' = map format_question selection;
          current_questions = py_slice questions' start end
      in current_questions)"

section \<open>Listing questions\<close>

text \<open>\<^verbatim>\<open>GET /questions\<close>. The handler has no \<^verbatim>\<open>try\<close>: its \<^verbatim>\<open>abort(404)\<close> goes out.\<close>

definition retrieve_questions :: "database \<Rightarrow> request \<Rightarrow> outcome" where
  "retrieve_questions db req =
     (let selection = order_by_id (questions db);
          all_categories = map format_category (categories db);
          current_questions = paginate_questions req selection
      in if length current_questions = 0 then Abort 404
         else Return (JObj
           [(''success'', JBool True),
            (''questions'', JList current_questions),
            (''total_questions'', JInt (int (length (questions db)))),
            (''current category'', JNull),
            (''categories'', JList all_categories)]))"

text \<open>
  Running a query against the database. The database is not part of the application: it
  may fail while a request is handled, and then running the query raises. \<open>fault\<close> is
  the exception of a failing database, \<open>None\<close> when the database answers.
\<close>

definition run_query :: "py_error option \<Rightarrow> 'a list \<Rightarrow> py_error + 'a list" where
  "run_query fault rows = (case fault of None \<Rightarrow> Inr rows | Some e \<Rightarrow> Inl e)"

text \<open>
  \<^verbatim>\<open>GET /categories/<int:category_id>/questions\<close>. The whole body, the two lookups and
  the \<^verbatim>\<open>abort(404)\<close>, is inside \<^verbatim>\<open>try: ... except BaseException: abort(422)\<close>.
\<close>

definition retrieve_questions_by_category ::
  "database \<Rightarrow> py_error option \<Rightarrow> request \<Rightarrow> int \<Rightarrow> outcome" where
  "retrieve_questions_by_category db fault req category_id = try_except_abort 422
     (case run_query fault
             (filter (\<lambda>q. category q = category_id) (order_by_id (questions db))) of
        Inl e \<Rightarrow> Raise e
      | Inr questions_by_category \<Rightarrow>
          (let questions_paginated = paginate_questions req questions_by_category
           in if length questions_paginated = 0 then Abort 404
              else (case run_query fault
                           (filter (\<lambda>q. category q = category_id) (questions db)) of
                      Inl e \<Rightarrow> Raise e
                    | Inr rows \<Rightarrow>
                        Return (JObj
                          [(''success'', JBool True),
                           (''questions'', JList questions_paginated),
                           (''total_questions'', JInt (int (length rows))),
                           (''current_category'', JInt category_id)]))))"

section \<open>Deleting a question\<close>

text \<open>
  \<^verbatim>\<open>Query.one_or_none()\<close>: the only row, \<^verbatim>\<open>None\<close> when there is none, and
  \<^verbatim>\<open>MultipleResultsFound\<close> when there are several.
\<close>

fun one_or_none :: "'a list \<Rightarrow> py_error + 'a option" where
  "one_or_none [] = Inr None"
| "one_or_none [x] = Inr (Some x)"
| "one_or_none (x # y # zs) = Inl MultipleResultsFound"

text \<open>
  Modelled from the spec: \<^verbatim>\<open>Question.delete\<close> lives in \<^verbatim>\<open>models\<close>, which is not part
  of the sources; the specification describes it as the mutator that removes the row, and
  a row is identified by its id.
\<close>

definition question_delete :: "question \<Rightarrow> database \<Rightarrow> database" where
  "question_delete q db = db\<lparr>questions := filter (\<lambda>r. qid r \<noteq> qid q) (questions db)\<rparr>"

text \<open>
  \<^verbatim>\<open>DELETE /questions/<int:question_id>\<close>: the outcome and the database afterwards.
  The lookup, the \<^verbatim>\<open>abort(404)\<close> and the deletion are all inside
  \<^verbatim>\<open>try: ... except BaseException: abort(422)\<close>.
\<close>

definition delete_question_try :: "database \<Rightarrow> int \<Rightarrow> outcome \<times> database" where
  "delete_question_try db question_id =
     (case one_or_none (filter (\<lambda>q. qid q = question_id) (questions db)) of
        Inl e \<Rightarrow> (Raise e, db)
      | Inr None \<Rightarrow> (Abort 404, db)
      | Inr (Some question') \<Rightarrow>
          (Return (JObj
             [(''success'', JBool True),
              (''deleted'', format_question question'),
              (''deleted_id'', JInt question_id)]),
           question_delete question' db))"

definition delete_question :: "database \<Rightarrow> int \<Rightarrow> outcome \<times> database" where
  "delete_question db question_id =
     (let (out, db') = delete_question_try db question_id
      in (try_except_abort 422 out, db'))"

section \<open>Searching\<close>

text \<open>
  The body of \<^verbatim>\<open>POST /search\<close>, a JSON object: \<open>searchTerm\<close> is what
  \<^verbatim>\<open>body.get('searchTerm', None)\<close> gives, \<open>None\<close> when the key is absent (or null).
\<close>

record search_body =
  searchTerm :: "string option"

text \<open>\<^verbatim>\<open>'%{}%'.format(search)\<close>: \<^verbatim>\<open>None\<close> is formatted as the text \<^verbatim>\<open>None\<close>.\<close>

definition format_pattern :: "string option \<Rightarrow> string" where
  "format_pattern search =
     ''%'' @ (case search of None \<Rightarrow> ''None'' | Some s \<Rightarrow> s) @ ''%''"

text \<open>
  \<^verbatim>\<open>Question.question.ilike(pattern)\<close> is the operator \<^verbatim>\<open>ILIKE\<close> of the database (the
  tests connect to PostgreSQL). In a pattern \<^verbatim>\<open>%\<close> stands for any run of characters,
  \<^verbatim>\<open>_\<close> for any one character, a backslash makes the next character stand for itself,
  and every other character stands for itself. A pattern that ends in a lone backslash
  is rejected by the database. A \<open>char\<close> stands for one character of a text.
\<close>

datatype like_token = AnyString | AnyChar | Literal char

fun like_tokens :: "string \<Rightarrow> like_token list option" where
  "like_tokens [] = Some []"
| "like_tokens (c # p) =
     (if c = CHR ''%'' then map_option (Cons AnyString) (like_tokens p)
      else if c = CHR ''_'' then map_option (Cons AnyChar) (like_tokens p)
      else if c = CHR 0x5C then
        (case p of
           [] \<Rightarrow> None
         | d # p' \<Rightarrow> map_option (Cons (Literal d)) (like_tokens p'))
      else map_option (Cons (Literal c)) (like_tokens p))"

text \<open>
  \<^verbatim>\<open>ILIKE\<close> compares two characters after lower-casing both. Which characters are
  letters, and what their lower case is, is decided by the locale of the database, which
  is not part of the application: the lower-casing is the parameter \<open>tolower\<close>.
\<close>

fun like_match :: "(char \<Rightarrow> char) \<Rightarrow> like_token list \<Rightarrow> string \<Rightarrow> bool" where
  "like_match tolower [] t = (t = [])"
| "like_match tolower (AnyString # ts) [] = like_match tolower ts []"
| "like_match tolower (AnyString # ts) (x # t) =
     (like_match tolower ts (x # t) \<or> like_match tolower (AnyString # ts) t)"
| "like_match tolower (AnyChar # ts) [] = False"
| "like_match tolower (AnyChar # ts) (x # t) = like_match tolower ts t"
| "like_match tolower (Literal c # ts) [] = False"
| "like_match tolower (Literal c # ts) (x # t) =
     (tolower x = tolower c \<and> like_match tolower ts t)"

text \<open>
  \<^verbatim>\<open>POST /search\<close>, on a database whose locale lower-cases with \<open>tolower\<close>. The query
  runs when \<^verbatim>\<open>paginate_questions\<close> iterates over it; no \<^verbatim>\<open>try\<close> surrounds it, and no
  test for an empty result follows it.
\<close>

definition search_question ::
  "(char \<Rightarrow> char) \<Rightarrow> database \<Rightarrow> request \<Rightarrow> search_body \<Rightarrow> outcome" where
  "search_question tolower db req body =
     (let search = searchTerm body
      in case like_tokens (format_pattern search) of
           None \<Rightarrow> Raise DataError
         | Some pattern \<Rightarrow>
             (let questions' =
                    filter (\<lambda>q. like_match tolower pattern (question q))
                      (order_by_id (questions db));
                  questions_paginated = paginate_questions req questions'
              in Return (JObj
                   [(''success'', JBool True),
                    (''questions'', JList questions_paginated)])))"

section \<open>Drawing a quiz question\<close>

text \<open>
  The body of \<^verbatim>\<open>POST /quizzes\<close>, a JSON object. \<open>quiz_category\<close> is what
  \<^verbatim>\<open>body.get('quiz_category', None)\<close> gives: \<open>None\<close> when the key is absent,
  \<open>Some None\<close> for an object without the key \<^verbatim>\<open>id\<close>, \<open>Some (Some c)\<close> for an object
  whose \<^verbatim>\<open>id\<close> is the integer \<open>c\<close>. \<open>previous_questions\<close> is what
  \<^verbatim>\<open>body.get('previous_questions', None)\<close> gives: a list of ids, or \<open>None\<close>.
\<close>

record quiz_body =
  quiz_category :: "int option option"
  previous_questions :: "int list option"

text \<open>
  \<^verbatim>\<open>quiz_category['id']\<close>: subscripting \<^verbatim>\<open>None\<close> raises \<^verbatim>\<open>TypeError\<close>, a missing
  key raises \<^verbatim>\<open>KeyError\<close>.
\<close>

definition subscript_id :: "int option option \<Rightarrow> py_error + int" where
  "subscript_id quiz_category' =
     (case quiz_category' of
        None \<Rightarrow> Inl TypeError
      | Some None \<Rightarrow> Inl KeyError
      | Some (Some c) \<Rightarrow> Inr c)"

text \<open>
  The loop that collects the questions not asked yet. \<^verbatim>\<open>x not in None\<close> raises
  \<^verbatim>\<open>TypeError\<close>, at the first question the loop visits.
\<close>

fun collect_new_questions ::
  "question list \<Rightarrow> int list option \<Rightarrow> question list \<Rightarrow> py_error + question list" where
  "collect_new_questions [] previous new_questions = Inr new_questions"
| "collect_new_questions (q # qs) previous new_questions =
     (case previous of
        None \<Rightarrow> Inl TypeError
      | Some ids \<Rightarrow>
          collect_new_questions qs previous
            (if qid q \<notin> set ids then new_questions @ [q] else new_questions))"

text \<open>
  \<^verbatim>\<open>random.choice(seq)\<close> returns \<^verbatim>\<open>seq[i]\<close> for a random index \<open>i\<close> below the length,
  and raises \<^verbatim>\<open>IndexError\<close> on an empty sequence. The random draw is the parameter
  \<open>r\<close>; as \<open>r\<close> ranges over the naturals, \<open>r mod length seq\<close> ranges over every index.
\<close>

definition random_choice :: "nat \<Rightarrow> 'a list \<Rightarrow> py_error + 'a" where
  "random_choice r seq = (if seq = [] then Inl IndexError else Inr (seq ! (r mod length seq)))"

text \<open>The candidates: every question for category 0, else the questions of the category.\<close>

definition quiz_candidates :: "database \<Rightarrow> int \<Rightarrow> question list" where
  "quiz_candidates db category_id =
     (if category_id = 0 then questions db
      else filter (\<lambda>q. category q = category_id) (questions db))"

text \<open>
  The \<^verbatim>\<open>try\<close> block of the handler. When no question is new, the block sets
  \<^verbatim>\<open>formatted_question = 0\<close> and ends without a \<^verbatim>\<open>return\<close>. Otherwise the choice is
  made from \<^verbatim>\<open>questions\<close>; appending the chosen question to the local list
  \<^verbatim>\<open>previous_questions\<close> changes nothing the response shows.
\<close>

definition retrieve_quizzes_try :: "database \<Rightarrow> int \<Rightarrow> int list option \<Rightarrow> nat \<Rightarrow> outcome" where
  "retrieve_quizzes_try db category_id previous r =
     (let questions' = quiz_candidates db category_id
      in case collect_new_questions questions' previous [] of
           Inl e \<Rightarrow> Raise e
         | Inr new_questions \<Rightarrow>
             if new_questions = [] then ReturnNone
             else (case random_choice r questions' of
                     Inl e \<Rightarrow> Raise e
                   | Inr question' \<Rightarrow>
                       Return (JObj
                         [(''success'', JBool True),
                          (''question'', format_question question')])))"

text \<open>
  \<^verbatim>\<open>POST /quizzes\<close>. \<^verbatim>\<open>category_id = quiz_category['id']\<close> is read before the
  \<^verbatim>\<open>try\<close>; the block itself is closed by \<^verbatim>\<open>except BaseException: abort(404)\<close>.
\<close>

definition retrieve_quizzes :: "database \<Rightarrow> quiz_body \<Rightarrow> nat \<Rightarrow> outcome" where
  "retrieve_quizzes db body r =
     (case subscript_id (quiz_category body) of
        Inl e \<Rightarrow> Raise e
      | Inr category_id \<Rightarrow>
          try_except_abort 404
            (retrieve_quizzes_try db category_id (previous_questions body) r))"

section \<open>Sample data\<close>

text \<open>A small database and a few rows, used to run the handlers on concrete requests.\<close>

definition sample_q1 :: question where
  "sample_q1 = \<lparr>qid = 1, question = ''Which painter signed NONE of these works?'',
     answer = ''Nobody'', category = 2, difficulty = 1\<rparr>"

definition sample_q2 :: question where
  "sample_q2 = \<lparr>qid = 2, question = ''What is the heaviest organ?'',
     answer = ''The liver'', category = 1, difficulty = 4\<rparr>"

definition sample_db :: database where
  "sample_db = \<lparr>questions = [sample_q2, sample_q1],
     categories = [\<lparr>cid = 1, ctype = ''Science''\<rparr>, \<lparr>cid = 2, ctype = ''Art''\<rparr>]\<rparr>"

text \<open>
  The lower-casing of a database whose locale is \<^verbatim>\<open>C\<close>: it folds the letters A to Z and
  leaves every other character as it is. The sample searches run on such a database.
\<close>

definition ascii_lower :: "char \<Rightarrow> char" where
  "ascii_lower c =
     (case map_of (zip ''ABCDEFGHIJKLMNOPQRSTUVWXYZ'' ''abcdefghijklmnopqrstuvwxyz'') c of
        None \<Rightarrow> c
      | Some d \<Rightarrow> d)"

section \<open>Properties\<close>

lemma py_slice_nonneg:
  assumes "0 \<le> start" "start \<le> end"
  shows "py_slice xs start end = take (nat (end - start)) (drop (nat start) xs)"
proof -
  let ?n = "length xs"
  have lo: "slice_bound ?n start = min (nat start) ?n"
    and hi: "slice_bound ?n end = min (nat end) ?n"
    using assms by (simp_all add: slice_bound_def)
  have d: "nat (end - start) = nat end - nat start"
    using assms by (simp add: nat_diff_distrib)
  show ?thesis
  proof (cases "nat end \<le> ?n")
    case True
    with assms have "nat start \<le> ?n" by linarith
    with True show ?thesis
      by (simp add: py_slice_def Let_def lo hi d)
  next
    case False
    then have "min (nat end) ?n - min (nat start) ?n = ?n - min (nat start) ?n"
      by simp
    moreover have "length (drop (min (nat start) ?n) xs) \<le> nat end - nat start"
      using False by (auto simp: min_def)
    moreover have "drop (min (nat start) ?n) xs = drop (nat start) xs"
      by (simp add: min_def)
    ultimately show ?thesis
      using False by (simp add: py_slice_def Let_def lo hi d)
  qed
qed

lemma paginate_questions_take_drop:
  assumes "(case args_page req of None \<Rightarrow> 1 | Some p' \<Rightarrow> p') = p" "1 \<le> p"
  shows "paginate_questions req selection =
           take 10 (drop (nat ((p - 1) * 10)) (map format_question selection))"
proof -
  have "py_slice (map format_question selection) ((p - 1) * 10) ((p - 1) * 10 + 10) =
          take (nat 10) (drop (nat ((p - 1) * 10)) (map format_question selection))"
    using assms(2) by (subst py_slice_nonneg) simp_all
  then show ?thesis
    using assms(1) by (simp add: paginate_questions_def QUESTIONS_PER_PAGE_def Let_def)
qed

subsection \<open>Pagination\<close>

text \<open>
  Claim C3. For a page number \<open>p \<ge> 1\<close> (the parameter \<^verbatim>\<open>page\<close>, or 1 when it is
  absent) \<^verbatim>\<open>paginate_questions\<close> returns the formatted items at the offsets
  \<open>(p - 1) * 10\<close> to \<open>(p - 1) * 10 + 9\<close> that exist: item \<open>i\<close> of the result is the
  formatted item \<open>(p - 1) * 10 + i\<close> of the selection. A page that starts at or after the
  end of the selection is the empty list, and the length of the result is the smaller of
  10 and the number of items left from the start offset.
\<close>

theorem paginate_questions_page_slice:
  assumes "(case args_page req of None \<Rightarrow> 1 | Some p' \<Rightarrow> p') = p" and "1 \<le> p"
  shows "paginate_questions req selection =
           take 10 (drop (nat ((p - 1) * 10)) (map format_question selection))
       \<and> (\<forall>i < length (paginate_questions req selection).
            paginate_questions req selection ! i =
              format_question (selection ! (nat ((p - 1) * 10) + i)))
       \<and> (int (length selection) \<le> (p - 1) * 10 \<longrightarrow> paginate_questions req selection = [])
       \<and> length (paginate_questions req selection) =
            min 10 (length selection - nat ((p - 1) * 10))"
proof -
  let ?s = "nat ((p - 1) * 10)"
  have eq: "paginate_questions req selection = take 10 (drop ?s (map format_question selection))"
    using assms by (rule paginate_questions_take_drop)
  have nth: "\<forall>i < length (paginate_questions req selection).
            paginate_questions req selection ! i = format_question (selection ! (?s + i))"
    by (auto simp: eq drop_map)
  have emp: "int (length selection) \<le> (p - 1) * 10 \<longrightarrow> paginate_questions req selection = []"
    by (simp add: eq)
  have len: "length (paginate_questions req selection) = min 10 (length selection - ?s)"
    by (simp add: eq min.commute)
  from eq nth emp len show ?thesis by blast
qed

theorem paginate_questions_page_slice_witness:
  "paginate_questions \<lparr>args_page = Some 2\<rparr> (replicate 11 sample_q1) = [format_question sample_q1]
   \<and> paginate_questions \<lparr>args_page = None\<rparr> [sample_q1, sample_q2] =
       [format_question sample_q1, format_question sample_q2]
   \<and> paginate_questions \<lparr>args_page = Some 3\<rparr> (replicate 11 sample_q1) = []"
  using paginate_questions_page_slice [of "\<lparr>args_page = Some 2\<rparr>" 2 "replicate 11 sample_q1"]
    paginate_questions_page_slice [of "\<lparr>args_page = None\<rparr>" 1 "[sample_q1, sample_q2]"]
    paginate_questions_page_slice [of "\<lparr>args_page = Some 3\<rparr>" 3 "replicate 11 sample_q1"]
  by (simp add: eval_nat_numeral)

lemma sample_order: "order_by_id (questions sample_db) = [sample_q1, sample_q2]"
  by (simp add: order_by_id_def sample_db_def sample_q1_def sample_q2_def)

subsection \<open>Listing questions\<close>

text \<open>
  Claim C7. \<^verbatim>\<open>GET /questions\<close>: when the page of questions is empty, the handler aborts
  with 404 and the client gets the Not Found envelope; this is so in particular when the
  page number is beyond the last page. Otherwise the handler returns the success envelope
  with the page, the number of all questions, a null current category and the list of all
  categories.
\<close>

theorem retrieve_questions_not_found_or_listing:
  "(paginate_questions req (order_by_id (questions db)) = [] \<longrightarrow>
      retrieve_questions db req = Abort 404 \<and> respond (retrieve_questions db req) = not_found)
   \<and> (args_page req = Some p \<longrightarrow> 1 \<le> p \<longrightarrow> int (length (questions db)) \<le> (p - 1) * 10 \<longrightarrow>
      status_code (retrieve_questions db req) = 404)
   \<and> (paginate_questions req (order_by_id (questions db)) \<noteq> [] \<longrightarrow>
      retrieve_questions db req = Return (JObj
        [(''success'', JBool True),
         (''questions'', JList (paginate_questions req (order_by_id (questions db)))),
         (''total_questions'', JInt (int (length (questions db)))),
         (''current category'', JNull),
         (''categories'', JList (map format_category (categories db)))])
      \<and> status_code (retrieve_questions db req) = 200)"
proof -
  let ?page = "paginate_questions req (order_by_id (questions db))"
  have a: "?page = [] \<longrightarrow>
      retrieve_questions db req = Abort 404 \<and> respond (retrieve_questions db req) = not_found"
    by (simp add: retrieve_questions_def Let_def)
  have b: "args_page req = Some p \<longrightarrow> 1 \<le> p \<longrightarrow> int (length (questions db)) \<le> (p - 1) * 10 \<longrightarrow>
      status_code (retrieve_questions db req) = 404"
  proof (intro impI)
    assume h: "args_page req = Some p" "1 \<le> p" "int (length (questions db)) \<le> (p - 1) * 10"
    then have "?page = take 10 (drop (nat ((p - 1) * 10)) (map format_question (order_by_id (questions db))))"
      by (intro paginate_questions_take_drop) simp_all
    with h(3) have "?page = []"
      by (simp add: order_by_id_def)
    then show "status_code (retrieve_questions db req) = 404"
      by (simp add: retrieve_questions_def Let_def status_code_def not_found_def error_envelope_def)
  qed
  have c: "?page \<noteq> [] \<longrightarrow>
      retrieve_questions db req = Return (JObj
        [(''success'', JBool True),
         (''questions'', JList ?page),
         (''total_questions'', JInt (int (length (questions db)))),
         (''current category'', JNull),
         (''categories'', JList (map format_category (categories db)))])
      \<and> status_code (retrieve_questions db req) = 200"
    by (simp add: retrieve_questions_def Let_def status_code_def)
  from a b c show ?thesis by blast
qed

theorem retrieve_questions_not_found_or_listing_witness:
  "retrieve_questions sample_db \<lparr>args_page = Some 100\<rparr> = Abort 404
   \<and> retrieve_questions sample_db \<lparr>args_page = None\<rparr> = Return (JObj
        [(''success'', JBool True),
         (''questions'', JList [format_question sample_q1, format_question sample_q2]),
         (''total_questions'', JInt 2),
         (''current category'', JNull),
         (''categories'', JList (map format_category (categories sample_db)))])"
proof -
  have e: "paginate_questions \<lparr>args_page = Some 100\<rparr> (order_by_id (questions sample_db)) = []"
    by (simp add: sample_order paginate_questions_def py_slice_def slice_bound_def
        QUESTIONS_PER_PAGE_def Let_def)
  have n: "paginate_questions \<lparr>args_page = None\<rparr> (order_by_id (questions sample_db)) =
        [format_question sample_q1, format_question sample_q2]"
    by (simp add: sample_order paginate_questions_def py_slice_def slice_bound_def
        QUESTIONS_PER_PAGE_def Let_def)
  have l: "length (questions sample_db) = 2"
    by (simp add: sample_db_def)
  show ?thesis
    using retrieve_questions_not_found_or_listing [of "\<lparr>args_page = Some 100\<rparr>" sample_db 100]
      retrieve_questions_not_found_or_listing [of "\<lparr>args_page = None\<rparr>" sample_db 1]
    by (simp add: e n l)
qed

lemma status_code_simps:
  "status_code (Return j) = 200"
  "status_code ReturnNone = 500"
  "status_code (Raise e) = 500"
  "status_code (Abort 404) = 404"
  "status_code (Abort 422) = 422"
  by (simp_all add: status_code_def server_error_def not_found_def unprocessable_def
      error_envelope_def)

subsection \<open>Questions of a category\<close>

text \<open>
  Claim C5, as stated, fails: a category without questions is answered with 422, not
  with 404 (the request of the repository's own test for this endpoint, on a database
  that answers).
\<close>

theorem retrieve_questions_by_category_empty_is_422:
  "retrieve_questions_by_category sample_db None \<lparr>args_page = None\<rparr> 101 = Abort 422
   \<and> status_code (retrieve_questions_by_category sample_db None \<lparr>args_page = None\<rparr> 101) \<noteq> 404"
  by (simp add: retrieve_questions_by_category_def run_query_def sample_order
      paginate_questions_def py_slice_def slice_bound_def QUESTIONS_PER_PAGE_def Let_def
      sample_q1_def sample_q2_def status_code_simps)

text \<open>
  Claim C5, amended. \<^verbatim>\<open>GET /categories/<id>/questions\<close>: when the page of the
  category's questions is empty (no question has the category, or the page is out of
  range), the response is Unprocessable (422), because the \<^verbatim>\<open>abort(404)\<close> is caught by
  the handler's own \<^verbatim>\<open>except\<close>; and any other failure during the lookup, whatever
  exception \<open>e\<close> the database raises, is answered with Unprocessable (422) too.
\<close>

theorem retrieve_questions_by_category_unprocessable:
  "(fault = None \<longrightarrow>
      paginate_questions req (filter (\<lambda>q. category q = c) (order_by_id (questions db))) = [] \<longrightarrow>
      retrieve_questions_by_category db fault req c = Abort 422
      \<and> respond (retrieve_questions_by_category db fault req c) = unprocessable)
   \<and> (fault = Some e \<longrightarrow>
      retrieve_questions_by_category db fault req c = Abort 422
      \<and> respond (retrieve_questions_by_category db fault req c) = unprocessable)"
  by (simp add: retrieve_questions_by_category_def run_query_def Let_def)

theorem retrieve_questions_by_category_unprocessable_witness:
  "retrieve_questions_by_category sample_db None \<lparr>args_page = Some 2\<rparr> 2 = Abort 422
   \<and> retrieve_questions_by_category sample_db (Some OperationalError) \<lparr>args_page = None\<rparr> 2 =
       Abort 422"
proof -
  have f: "filter (\<lambda>q. category q = 2) (order_by_id (questions sample_db)) = [sample_q1]"
    by (simp add: sample_order sample_q1_def sample_q2_def)
  have e: "paginate_questions \<lparr>args_page = Some 2\<rparr> [sample_q1] = []"
    by (simp add: paginate_questions_def py_slice_def slice_bound_def
        QUESTIONS_PER_PAGE_def Let_def)
  show ?thesis
    using retrieve_questions_by_category_unprocessable
        [of None "\<lparr>args_page = Some 2\<rparr>" 2 sample_db]
      retrieve_questions_by_category_unprocessable
        [of "Some OperationalError" "\<lparr>args_page = None\<rparr>" 2 sample_db OperationalError]
    by (simp add: f e)
qed

subsection \<open>Deleting a question\<close>

lemma filter_key_distinct:
  "distinct (map f xs) \<Longrightarrow> q \<in> set xs \<Longrightarrow> filter (\<lambda>r. f r = f q) xs = [q]"
proof (induction xs)
  case Nil
  then show ?case by simp
next
  case (Cons x xs)
  show ?case
  proof (cases "x = q")
    case True
    with Cons.prems have "f q \<notin> f ` set xs" by simp
    then have "\<forall>r \<in> set xs. f r \<noteq> f q" by (metis imageI)
    then have "filter (\<lambda>r. f r = f q) xs = []" by (simp add: filter_empty_conv)
    with True show ?thesis by simp
  next
    case False
    with Cons.prems have "q \<in> set xs" "f x \<noteq> f q" by auto
    with Cons show ?thesis by simp
  qed
qed

text \<open>
  Claim C4, as stated, fails: deleting an id that no question has is answered with 422,
  not with 404 (the request of the repository's own test for this endpoint).
\<close>

theorem delete_question_absent_is_422:
  "fst (delete_question sample_db 500) = Abort 422
   \<and> status_code (fst (delete_question sample_db 500)) \<noteq> 404"
  by (simp add: delete_question_def delete_question_try_def sample_db_def sample_q1_def
      sample_q2_def status_code_simps)

text \<open>
  Claim C4, amended. \<^verbatim>\<open>DELETE /questions/<id>\<close>: when no question has the id, the
  \<^verbatim>\<open>abort(404)\<close> is caught by the handler's own \<^verbatim>\<open>except\<close>, the response is
  Unprocessable (422) and the database is unchanged. When a question has the id (ids are
  unique), the handler deletes it and returns the success envelope with the formatted
  question and the id.
\<close>

theorem delete_question_unprocessable_or_deleted:
  "((\<forall>r \<in> set (questions db). qid r \<noteq> i) \<longrightarrow>
      delete_question db i = (Abort 422, db) \<and> respond (Abort 422) = unprocessable)
   \<and> (distinct (map qid (questions db)) \<longrightarrow> q \<in> set (questions db) \<longrightarrow> qid q = i \<longrightarrow>
      delete_question db i =
        (Return (JObj
           [(''success'', JBool True),
            (''deleted'', format_question q),
            (''deleted_id'', JInt i)]),
         question_delete q db))"
proof -
  have a: "(\<forall>r \<in> set (questions db). qid r \<noteq> i) \<longrightarrow>
      delete_question db i = (Abort 422, db) \<and> respond (Abort 422) = unprocessable"
  proof
    assume "\<forall>r \<in> set (questions db). qid r \<noteq> i"
    then have "filter (\<lambda>r. qid r = i) (questions db) = []"
      by (simp add: filter_empty_conv)
    then show "delete_question db i = (Abort 422, db) \<and> respond (Abort 422) = unprocessable"
      by (simp add: delete_question_def delete_question_try_def)
  qed
  have b: "distinct (map qid (questions db)) \<longrightarrow> q \<in> set (questions db) \<longrightarrow> qid q = i \<longrightarrow>
      delete_question db i =
        (Return (JObj
           [(''success'', JBool True),
            (''deleted'', format_question q),
            (''deleted_id'', JInt i)]),
         question_delete q db)"
  proof (intro impI)
    assume "distinct (map qid (questions db))" "q \<in> set (questions db)" "qid q = i"
    then have "filter (\<lambda>r. qid r = i) (questions db) = [q]"
      using filter_key_distinct [of qid "questions db" q] by simp
    with \<open>qid q = i\<close> show "delete_question db i =
        (Return (JObj
           [(''success'', JBool True),
            (''deleted'', format_question q),
            (''deleted_id'', JInt i)]),
         question_delete q db)"
      by (simp add: delete_question_def delete_question_try_def)
  qed
  from a b show ?thesis by blast
qed

theorem delete_question_unprocessable_or_deleted_witness:
  "delete_question sample_db 500 = (Abort 422, sample_db)
   \<and> delete_question sample_db 1 =
        (Return (JObj
           [(''success'', JBool True),
            (''deleted'', format_question sample_q1),
            (''deleted_id'', JInt 1)]),
         sample_db\<lparr>questions := [sample_q2]\<rparr>)"
proof -
  have q: "questions sample_db = [sample_q2, sample_q1]" "qid sample_q1 = 1" "qid sample_q2 = 2"
    by (simp_all add: sample_db_def sample_q1_def sample_q2_def)
  have d: "question_delete sample_q1 sample_db = sample_db\<lparr>questions := [sample_q2]\<rparr>"
    by (simp add: question_delete_def q)
  show ?thesis
    using delete_question_unprocessable_or_deleted [of sample_db 500 sample_q1]
      delete_question_unprocessable_or_deleted [of sample_db 1 sample_q1]
    by (simp add: q d)
qed

subsection \<open>Drawing a quiz question\<close>

lemma collect_new_questions_Some:
  "collect_new_questions qs (Some ids) acc = Inr (acc @ filter (\<lambda>q. qid q \<notin> set ids) qs)"
  by (induction qs arbitrary: acc) simp_all

lemma collect_new_questions_None:
  "collect_new_questions qs None acc = (if qs = [] then Inr acc else Inl TypeError)"
  by (cases qs) simp_all

lemma sample_rows:
  "questions sample_db = [sample_q2, sample_q1]"
  "qid sample_q1 = 1" "qid sample_q2 = 2"
  "category sample_q1 = 2" "category sample_q2 = 1"
  by (simp_all add: sample_db_def sample_q1_def sample_q2_def)

text \<open>
  Claim C1 fails on the code. With two questions in the database and question 2 already
  asked, a draw over all categories finds question 1 new, and then chooses from all the
  candidates: the draw \<open>r = 0\<close> returns question 2 again.
\<close>

theorem quiz_repeats_previous_question:
  "retrieve_quizzes sample_db \<lparr>quiz_category = Some (Some 0), previous_questions = Some [2]\<rparr> 0 =
     Return (JObj [(''success'', JBool True), (''question'', format_question sample_q2)])
   \<and> qid sample_q2 \<in> set [2]"
  by (simp add: retrieve_quizzes_def subscript_id_def retrieve_quizzes_try_def
      quiz_candidates_def random_choice_def collect_new_questions_Some sample_rows Let_def)

text \<open>
  Claim C2. The candidates of a draw are all questions when the category id is 0, and
  otherwise exactly the questions whose category is the id. Whatever the random draw
  \<open>r\<close>, a success response carries the formatted form of one of the candidates.
\<close>

theorem quiz_question_from_candidates:
  "quiz_candidates db 0 = questions db
   \<and> (c \<noteq> 0 \<longrightarrow> set (quiz_candidates db c) = {q \<in> set (questions db). category q = c})
   \<and> (retrieve_quizzes db body r = Return j \<longrightarrow>
        (\<exists>c' q. quiz_category body = Some (Some c') \<and> q \<in> set (quiz_candidates db c')
           \<and> j = JObj [(''success'', JBool True), (''question'', format_question q)]))"
proof -
  have a: "quiz_candidates db 0 = questions db"
    by (simp add: quiz_candidates_def)
  have b: "c \<noteq> 0 \<longrightarrow> set (quiz_candidates db c) = {q \<in> set (questions db). category q = c}"
    by (auto simp: quiz_candidates_def)
  have d: "retrieve_quizzes db body r = Return j \<longrightarrow>
        (\<exists>c' q. quiz_category body = Some (Some c') \<and> q \<in> set (quiz_candidates db c')
           \<and> j = JObj [(''success'', JBool True), (''question'', format_question q)])"
  proof
    assume ret: "retrieve_quizzes db body r = Return j"
    then obtain c' where cat: "quiz_category body = Some (Some c')"
      by (auto simp: retrieve_quizzes_def subscript_id_def split: option.splits)
    let ?qs = "quiz_candidates db c'"
    from ret cat have "try_except_abort 404
        (retrieve_quizzes_try db c' (previous_questions body) r) = Return j"
      by (simp add: retrieve_quizzes_def subscript_id_def)
    then have "retrieve_quizzes_try db c' (previous_questions body) r = Return j"
      by (cases "retrieve_quizzes_try db c' (previous_questions body) r") simp_all
    then have ne: "?qs \<noteq> []"
      and j: "j = JObj [(''success'', JBool True),
                        (''question'', format_question (?qs ! (r mod length ?qs)))]"
      by (auto simp: retrieve_quizzes_try_def random_choice_def Let_def
          split: sum.splits if_splits)
    from ne have "?qs ! (r mod length ?qs) \<in> set ?qs"
      by simp
    with cat j show "\<exists>c' q. quiz_category body = Some (Some c') \<and> q \<in> set (quiz_candidates db c')
           \<and> j = JObj [(''success'', JBool True), (''question'', format_question q)]"
      by blast
  qed
  from a b d show ?thesis by blast
qed

theorem quiz_question_from_candidates_witness:
  "retrieve_quizzes sample_db \<lparr>quiz_category = Some (Some 2), previous_questions = Some []\<rparr> 7 =
     Return (JObj [(''success'', JBool True), (''question'', format_question sample_q1)])
   \<and> (\<exists>q. q \<in> set (quiz_candidates sample_db 2) \<and>
        JObj [(''success'', JBool True), (''question'', format_question sample_q1)] =
        JObj [(''success'', JBool True), (''question'', format_question q)])"
proof -
  let ?body = "\<lparr>quiz_category = Some (Some 2), previous_questions = Some []\<rparr>"
  let ?j = "JObj [(''success'', JBool True), (''question'', format_question sample_q1)]"
  have run: "retrieve_quizzes sample_db ?body 7 = Return ?j"
    by (simp add: retrieve_quizzes_def subscript_id_def retrieve_quizzes_try_def
        quiz_candidates_def random_choice_def collect_new_questions_Some sample_rows Let_def)
  have "retrieve_quizzes sample_db ?body 7 = Return ?j \<longrightarrow>
        (\<exists>c' q. quiz_category ?body = Some (Some c') \<and> q \<in> set (quiz_candidates sample_db c')
           \<and> ?j = JObj [(''success'', JBool True), (''question'', format_question q)])"
    using quiz_question_from_candidates [of sample_db 2 ?body 7 ?j] by blast
  with run obtain c' q where "quiz_category ?body = Some (Some c')"
    "q \<in> set (quiz_candidates sample_db c')"
    "?j = JObj [(''success'', JBool True), (''question'', format_question q)]"
    by blast
  then have "\<exists>q. q \<in> set (quiz_candidates sample_db 2) \<and>
      ?j = JObj [(''success'', JBool True), (''question'', format_question q)]"
    by auto
  with run show ?thesis by blast
qed

text \<open>
  Claim C9. When every candidate's id is in \<^verbatim>\<open>previous_questions\<close>, the handler ends
  without returning a response: no success envelope is produced, and the client gets the
  answer Flask gives for a view that returned nothing, status 500.
\<close>

theorem quiz_exhausted_returns_nothing:
  assumes "quiz_category body = Some (Some c)"
    and "previous_questions body = Some ids"
    and "\<forall>q \<in> set (quiz_candidates db c). qid q \<in> set ids"
  shows "retrieve_quizzes db body r = ReturnNone
       \<and> (\<forall>j. retrieve_quizzes db body r \<noteq> Return j)
       \<and> status_code (retrieve_quizzes db body r) = 500"
proof -
  from assms(3) have "filter (\<lambda>q. qid q \<notin> set ids) (quiz_candidates db c) = []"
    by (simp add: filter_empty_conv)
  then have "retrieve_quizzes_try db c (Some ids) r = ReturnNone"
    by (simp add: retrieve_quizzes_try_def collect_new_questions_Some Let_def)
  with assms(1,2) have "retrieve_quizzes db body r = ReturnNone"
    by (simp add: retrieve_quizzes_def subscript_id_def)
  then show ?thesis
    by (simp add: status_code_simps)
qed

theorem quiz_exhausted_returns_nothing_witness:
  "retrieve_quizzes sample_db \<lparr>quiz_category = Some (Some 2), previous_questions = Some [1]\<rparr> 0 =
     ReturnNone
   \<and> status_code (retrieve_quizzes sample_db
        \<lparr>quiz_category = Some (Some 2), previous_questions = Some [1]\<rparr> 0) = 500"
proof -
  have "\<forall>q \<in> set (quiz_candidates sample_db 2). qid q \<in> set [1]"
    by (simp add: quiz_candidates_def sample_rows)
  then show ?thesis
    using quiz_exhausted_returns_nothing [of
        "\<lparr>quiz_category = Some (Some 2), previous_questions = Some [1]\<rparr>" 2 "[1]" sample_db 0]
    by (simp add: status_code_simps)
qed

text \<open>
  Claim C6, as stated, fails: a body whose \<^verbatim>\<open>quiz_category\<close> has no \<^verbatim>\<open>id\<close> makes
  \<^verbatim>\<open>quiz_category['id']\<close> raise \<^verbatim>\<open>KeyError\<close> before the \<^verbatim>\<open>try\<close> block is entered;
  the exception leaves the handler and the response is not 404.
\<close>

theorem quiz_missing_id_is_not_404:
  "retrieve_quizzes sample_db \<lparr>quiz_category = Some None, previous_questions = Some []\<rparr> 0 =
     Raise KeyError
   \<and> status_code (retrieve_quizzes sample_db
        \<lparr>quiz_category = Some None, previous_questions = Some []\<rparr> 0) \<noteq> 404"
  by (simp add: retrieve_quizzes_def subscript_id_def status_code_simps)

text \<open>
  Claim C6, amended. For a draw whose body has \<^verbatim>\<open>quiz_category.id\<close>, every exception
  raised during handling is raised inside the \<^verbatim>\<open>try\<close> block and the response is Not
  Found (404): this is what happens when \<^verbatim>\<open>previous_questions\<close> is absent and there is
  a candidate to test against it. No exception leaves the handler.
\<close>

theorem quiz_guarded_exception_is_404:
  assumes "quiz_category body = Some (Some c)"
  shows "((\<exists>e. retrieve_quizzes_try db c (previous_questions body) r = Raise e) \<longrightarrow>
            retrieve_quizzes db body r = Abort 404
            \<and> respond (retrieve_quizzes db body r) = not_found)
       \<and> (previous_questions body = None \<longrightarrow> quiz_candidates db c \<noteq> [] \<longrightarrow>
            retrieve_quizzes_try db c (previous_questions body) r = Raise TypeError
            \<and> retrieve_quizzes db body r = Abort 404)
       \<and> (\<forall>e. retrieve_quizzes db body r \<noteq> Raise e)"
proof -
  let ?t = "retrieve_quizzes_try db c (previous_questions body) r"
  have eq: "retrieve_quizzes db body r = try_except_abort 404 ?t"
    using assms by (simp add: retrieve_quizzes_def subscript_id_def)
  have a: "(\<exists>e. ?t = Raise e) \<longrightarrow>
            retrieve_quizzes db body r = Abort 404
            \<and> respond (retrieve_quizzes db body r) = not_found"
    by (auto simp: eq)
  have b: "previous_questions body = None \<longrightarrow> quiz_candidates db c \<noteq> [] \<longrightarrow>
            ?t = Raise TypeError \<and> retrieve_quizzes db body r = Abort 404"
    by (simp add: eq retrieve_quizzes_try_def collect_new_questions_None Let_def)
  have d: "\<forall>e. retrieve_quizzes db body r \<noteq> Raise e"
    unfolding eq by (cases ?t) simp_all
  from a b d show ?thesis by blast
qed

theorem quiz_guarded_exception_is_404_witness:
  "retrieve_quizzes_try sample_db 2 None 0 = Raise TypeError
   \<and> retrieve_quizzes sample_db \<lparr>quiz_category = Some (Some 2), previous_questions = None\<rparr> 0 =
       Abort 404"
proof -
  have "quiz_candidates sample_db 2 \<noteq> []"
    by (simp add: quiz_candidates_def sample_rows)
  then show ?thesis
    using quiz_guarded_exception_is_404 [of
        "\<lparr>quiz_category = Some (Some 2), previous_questions = None\<rparr>" 2 sample_db 0]
    by simp
qed

subsection \<open>Searching\<close>

lemma like_tokens_literal:
  assumes "CHR ''%'' \<notin> set s" "CHR ''_'' \<notin> set s" "CHR 0x5C \<notin> set s"
  shows "like_tokens (s @ p) = map_option ((@) (map Literal s)) (like_tokens p)"
  using assms
proof (induction s)
  case Nil
  show ?case by (simp add: option.map_ident)
next
  case (Cons c s)
  then have c: "c \<noteq> CHR ''%''" "c \<noteq> CHR ''_''" "c \<noteq> CHR 0x5C"
    and ih: "like_tokens (s @ p) = map_option ((@) (map Literal s)) (like_tokens p)"
    by auto
  show ?case
    by (simp add: c ih option.map_comp comp_def)
qed

lemma like_tokens_pattern:
  assumes "CHR ''%'' \<notin> set s" "CHR ''_'' \<notin> set s" "CHR 0x5C \<notin> set s"
  shows "like_tokens (''%'' @ s @ ''%'') = Some (AnyString # map Literal s @ [AnyString])"
  using like_tokens_literal [OF assms, of "''%''"] by simp

lemma like_match_any: "like_match tolower [AnyString] t"
  by (induction t) simp_all

lemma like_match_prefix:
  "like_match tolower (map Literal s @ [AnyString]) t = prefix (map tolower s) (map tolower t)"
proof (induction s arbitrary: t)
  case Nil
  show ?case by (simp add: like_match_any)
next
  case (Cons c s)
  show ?case
    by (cases t) (auto simp: Cons.IH)
qed

lemma like_match_sublist:
  "like_match tolower (AnyString # map Literal s @ [AnyString]) t =
     sublist (map tolower s) (map tolower t)"
proof (induction t)
  case Nil
  have "like_match tolower (map Literal s @ [AnyString]) [] =
          prefix (map tolower s) (map tolower [])"
    by (rule like_match_prefix)
  then show ?case by simp
next
  case (Cons x t)
  have "like_match tolower (map Literal s @ [AnyString]) (x # t) =
          prefix (map tolower s) (map tolower (x # t))"
    by (rule like_match_prefix)
  with Cons show ?case
    by (simp add: sublist_Cons_right)
qed

lemma search_question_literal:
  assumes "(case searchTerm body of None \<Rightarrow> ''None'' | Some s' \<Rightarrow> s') = s"
    and "CHR ''%'' \<notin> set s" "CHR ''_'' \<notin> set s" "CHR 0x5C \<notin> set s"
  shows "search_question tolower db req body = Return (JObj
           [(''success'', JBool True),
            (''questions'', JList (paginate_questions req
               (filter (\<lambda>q. sublist (map tolower s) (map tolower (question q)))
                  (order_by_id (questions db)))))])"
proof -
  have "format_pattern (searchTerm body) = ''%'' @ s @ ''%''"
    using assms(1) by (simp add: format_pattern_def)
  then have "like_tokens (format_pattern (searchTerm body)) =
      Some (AnyString # map Literal s @ [AnyString])"
    using like_tokens_pattern [OF assms(2-4)] by simp
  then show ?thesis
    by (simp add: search_question_def Let_def like_match_sublist)
qed


lemma paginate_sample:
  "paginate_questions \<lparr>args_page = None\<rparr> [sample_q1, sample_q2] =
     [format_question sample_q1, format_question sample_q2]"
  "paginate_questions \<lparr>args_page = None\<rparr> [sample_q1] = [format_question sample_q1]"
  "paginate_questions \<lparr>args_page = None\<rparr> [sample_q2] = [format_question sample_q2]"
  "paginate_questions \<lparr>args_page = Some 2\<rparr> [sample_q1] = []"
  by (simp_all add: paginate_questions_def py_slice_def slice_bound_def
      QUESTIONS_PER_PAGE_def Let_def)

lemma sample_none_matches:
  "filter (\<lambda>q. sublist (map ascii_lower ''None'') (map ascii_lower (question q)))
     (order_by_id (questions sample_db)) = [sample_q1]"
  by (simp add: sample_order sample_q1_def sample_q2_def ascii_lower_def sublist_Cons_right)




text \<open>
  Claim C10, as stated, fails: the response does not hold exactly the questions whose
  text contains \<^verbatim>\<open>none\<close>, but one page of them. Without a \<^verbatim>\<open>searchTerm\<close> and with
  \<^verbatim>\<open>page=2\<close>, the list of the response is empty although the text of question 1
  contains \<^verbatim>\<open>NONE\<close>.
\<close>

theorem search_without_term_omits_match:
  "search_question ascii_lower sample_db \<lparr>args_page = Some 2\<rparr> \<lparr>searchTerm = None\<rparr> =
     Return (JObj [(''success'', JBool True), (''questions'', JList [])])
   \<and> sample_q1 \<in> set (questions sample_db)
   \<and> sublist ''none'' (map ascii_lower (question sample_q1))"
proof -
  have "search_question ascii_lower sample_db \<lparr>args_page = Some 2\<rparr> \<lparr>searchTerm = None\<rparr> =
     Return (JObj [(''success'', JBool True), (''questions'', JList [])])"
    using search_question_literal [of "\<lparr>searchTerm = None\<rparr>" "''None''" ascii_lower sample_db
        "\<lparr>args_page = Some 2\<rparr>"]
    by (simp only: sample_none_matches paginate_sample) simp
  moreover have "sample_q1 \<in> set (questions sample_db)"
    by (simp add: sample_db_def)
  moreover have "sublist ''none'' (map ascii_lower (question sample_q1))"
    by (simp add: sample_q1_def ascii_lower_def sublist_Cons_right)
  ultimately show ?thesis by blast
qed

text \<open>
  Claim C10, amended. When the body has no \<^verbatim>\<open>searchTerm\<close>, the handler searches with
  the pattern \<^verbatim>\<open>%None%\<close>: the response is the success envelope with the paginated
  slice of the questions whose text contains \<^verbatim>\<open>none\<close> in any mix of upper and lower
  case (the characters of \<^verbatim>\<open>None\<close>, compared after the lower-casing of the database),
  in ascending order of id. It is neither the list of all questions nor an error.
\<close>

theorem search_without_term_matches_none:
  assumes "searchTerm body = None"
  shows "format_pattern (searchTerm body) = ''%None%''
       \<and> search_question tolower db req body = Return (JObj
           [(''success'', JBool True),
            (''questions'', JList (paginate_questions req
               (filter (\<lambda>q. sublist (map tolower ''None'') (map tolower (question q)))
                  (order_by_id (questions db)))))])"
proof -
  have "format_pattern (searchTerm body) = ''%None%''"
    using assms by (simp add: format_pattern_def)
  moreover have "search_question tolower db req body = Return (JObj
           [(''success'', JBool True),
            (''questions'', JList (paginate_questions req
               (filter (\<lambda>q. sublist (map tolower ''None'') (map tolower (question q)))
                  (order_by_id (questions db)))))])"
    using assms by (intro search_question_literal) simp_all
  ultimately show ?thesis by blast
qed

theorem search_without_term_matches_none_witness:
  "search_question ascii_lower sample_db \<lparr>args_page = None\<rparr> \<lparr>searchTerm = None\<rparr> =
     Return (JObj
       [(''success'', JBool True), (''questions'', JList [format_question sample_q1])])"
proof -
  have "search_question ascii_lower sample_db \<lparr>args_page = None\<rparr> \<lparr>searchTerm = None\<rparr> =
     Return (JObj
       [(''success'', JBool True),
        (''questions'', JList (paginate_questions \<lparr>args_page = None\<rparr>
           (filter (\<lambda>q. sublist (map ascii_lower ''None'') (map ascii_lower (question q)))
              (order_by_id (questions sample_db)))))])"
    using search_without_term_matches_none [of "\<lparr>searchTerm = None\<rparr>" ascii_lower sample_db
        "\<lparr>args_page = None\<rparr>"]
    by simp
  then show ?thesis
    by (simp only: sample_none_matches paginate_sample)
qed

end
